theory Spec2Isabelle
  imports Complex_Main
begin

section \<open>Values, exceptions and the environment of \<open>main.py\<close>\<close>

text \<open>
  The script \<open>src/main.py\<close> is a Streamlit page: it is executed from top to bottom at
  every user interaction, and only the cache behind \<open>@st.cache_resource\<close> survives from
  one execution to the next. The model below follows the control flow of the script;
  what the script only calls (joblib, the unpickled model object, pandas, Streamlit) is
  the environment.

  A Python float is a rational number or one of the four special values. The script
  does no arithmetic on floats, it only passes them on and formats one of them, so the
  rationals (which contain every finite double) are enough.
\<close>

datatype pyfloat = Finite rat | NegZero | PosInf | NegInf | NaN

text \<open>A Python value as far as the script can tell values apart: a float, a \<open>str\<close>,
  or an object of the named type that has no format of its own.\<close>

datatype pyval = PyFloat pyfloat | PyStr string | PyObject string

text \<open>A raised exception: the name of its class and the text \<open>str(e)\<close>.\<close>

datatype exn = Exn (exn_class: string) (exn_str: string)

text \<open>\<open>isinstance(e, Exception)\<close>: the built-in classes that derive from
  \<open>BaseException\<close> and not from \<open>Exception\<close> are the three below.\<close>

definition is_Exception :: "exn \<Rightarrow> bool" where
  "is_Exception e = (exn_class e \<notin> set [''KeyboardInterrupt'', ''SystemExit'', ''GeneratorExit''])"

text \<open>What \<open>predict\<close> returns: a Python list or a one-dimensional numpy array.\<close>

datatype pyseq = PyList (items: "pyval list") | NdArray (items: "pyval list")

text \<open>\<open>pd.DataFrame(rows, columns=labels)\<close>: the column labels and the rows.\<close>

record dataframe =
  columns :: "string list"
  data_rows :: "pyval list list"

text \<open>
  The environment of one execution. \<open>joblib_load path\<close> is what \<open>joblib.load\<close> does on
  the file system as it is now: it raises, or it returns the unpickled object, which
  may be \<open>None\<close>. \<open>predict m df\<close> is what \<open>m.predict(df)\<close> does on the unpickled
  object \<open>m\<close>: it raises (an \<open>AttributeError\<close> when \<open>m\<close> has no such method), or it
  returns a sequence.
\<close>

record 'm env =
  joblib_load :: "string \<Rightarrow> exn + 'm option"
  predict :: "'m \<Rightarrow> dataframe \<Rightarrow> exn + pyseq"

text \<open>The elements the script puts on the page in its model and prediction logic.
  The fixed page chrome (title, captions, markdown, divider, expander) takes no part in
  the control flow and is left out.\<close>

datatype element =
  StError string | StWarning string | StSuccess string | StInfo string | StSubheader string

text \<open>
  The state: the process-wide cache of \<open>st.cache_resource\<close> for \<open>load_model\<close> (argument
  to returned value), the paths on which \<open>joblib.load\<close> was executed, the elements shown
  and the calls of \<open>predict\<close> made, each in order.
\<close>

record 'm app_state =
  cache :: "string \<rightharpoonup> 'm option"
  fs_reads :: "string list"
  ui :: "element list"
  predict_calls :: "('m \<times> dataframe) list"

definition emit :: "element \<Rightarrow> 'm app_state \<Rightarrow> 'm app_state" where
  "emit el st = st\<lparr>ui := ui st @ [el]\<rparr>"

definition initial_state :: "'m app_state" where
  "initial_state = \<lparr>cache = Map.empty, fs_reads = [], ui = [], predict_calls = []\<rparr>"

section \<open>Texts of the script\<close>

text \<open>Strings are byte lists; a letter outside ASCII is its UTF-8 bytes.\<close>

definition e_acute :: string where "e_acute = [CHR 0xC3, CHR 0xA9]"
definition i_acute :: string where "i_acute = [CHR 0xC3, CHR 0xAD]"
definition o_acute :: string where "o_acute = [CHR 0xC3, CHR 0xB3]"
definition u_acute :: string where "u_acute = [CHR 0xC3, CHR 0xBA]"
definition chart_emoji :: string where "chart_emoji = [CHR 0xF0, CHR 0x9F, CHR 0x93, CHR 0x88]"

definition not_found_text :: "string \<Rightarrow> string" where
  "not_found_text model_path =
     ''Error: No se encontr'' @ o_acute @ '' el archivo del modelo en '' @ model_path
     @ ''. Aseg'' @ u_acute @ ''rate de que el archivo del modelo est'' @ e_acute
     @ '' en el directorio correcto.''"

definition warning_text :: string where
  "warning_text =
     ''El modelo no pudo ser cargado. Por favor, verifica la ruta del archivo del modelo.''"

definition subheader_text :: string where
  "subheader_text = chart_emoji @ '' Resultado de la Predicci'' @ o_acute @ ''n''"

definition info_text :: string where
  "info_text = ''Este valor representa el porcentaje del concentrado de s'' @ i_acute
     @ ''lice estimado.''"

definition predict_error_text :: "exn \<Rightarrow> string" where
  "predict_error_text e =
     ''Ocurri'' @ o_acute @ '' un error durante la predicci'' @ o_acute @ ''n: '' @ exn_str e"

definition success_text :: "string \<Rightarrow> string" where
  "success_text shown = ''**Concentrado Predicho:** `'' @ shown @ ''%`''"

definition feature_columns :: "string list" where
  "feature_columns = [''% Iron Concentrate'', ''Flotation Column 01 Air Flow'', ''Amina Flow'']"

section \<open>The format \<open>:.2f\<close>\<close>

definition digit_char :: "nat \<Rightarrow> char" where
  "digit_char d = ''0123456789'' ! (d mod 10)"

fun str_nat :: "nat \<Rightarrow> string" where
  "str_nat n = (if n < 10 then [digit_char n] else str_nat (n div 10) @ [digit_char (n mod 10)])"

declare str_nat.simps [simp del]

text \<open>Rounding to the nearest integer, a tie to the even one, as the conversion of a
  float to a decimal string does.\<close>

definition round_half_even :: "rat \<Rightarrow> int" where
  "round_half_even q =
     (let f = \<lfloor>q\<rfloor>; r = q - of_int f
      in if r < 1 / 2 then f else if 1 / 2 < r then f + 1 else if even f then f else f + 1)"

text \<open>A magnitude with two digits after the point.\<close>

definition fixed2 :: "rat \<Rightarrow> string" where
  "fixed2 q =
     (let c = nat (round_half_even (q * 100))
      in str_nat (c div 100) @ ''.'' @ [digit_char (c div 10 mod 10), digit_char (c mod 10)])"

fun float_format_2f :: "pyfloat \<Rightarrow> string" where
  "float_format_2f (Finite q) = (if q < 0 then ''-'' @ fixed2 (- q) else fixed2 q)"
| "float_format_2f NegZero = ''-0.00''"
| "float_format_2f PosInf = ''inf''"
| "float_format_2f NegInf = ''-inf''"
| "float_format_2f NaN = ''nan''"

text \<open>\<open>f"{v:.2f}"\<close>: a float is formatted, a \<open>str\<close> raises \<open>ValueError\<close>, an object
  without a format of its own raises \<open>TypeError\<close>.\<close>

definition apostrophe :: string where "apostrophe = [CHR 0x27]"

fun format_2f :: "pyval \<Rightarrow> exn + string" where
  "format_2f (PyFloat x) = Inr (float_format_2f x)"
| "format_2f (PyStr s) =
     Inl (Exn ''ValueError'' (''Unknown format code '' @ apostrophe @ ''f'' @ apostrophe
       @ '' for object of type '' @ apostrophe @ ''str'' @ apostrophe))"
| "format_2f (PyObject ty) =
     Inl (Exn ''TypeError'' (''unsupported format string passed to '' @ ty @ ''.__format__''))"

text \<open>\<open>prediction_value[0]\<close>: an empty list and an empty array raise \<open>IndexError\<close>,
  each with its own text.\<close>

fun getitem0 :: "pyseq \<Rightarrow> exn + pyval" where
  "getitem0 (PyList []) = Inl (Exn ''IndexError'' ''list index out of range'')"
| "getitem0 (PyList (v # vs)) = Inr v"
| "getitem0 (NdArray []) =
     Inl (Exn ''IndexError'' ''index 0 is out of bounds for axis 0 with size 0'')"
| "getitem0 (NdArray (v # vs)) = Inr v"



section \<open>Model loading\<close>

text \<open>The body of \<open>load_model\<close> (lines 18 to 25): only \<open>FileNotFoundError\<close> is handled.\<close>

definition load_model :: "'m env \<Rightarrow> string \<Rightarrow> 'm app_state \<Rightarrow> (exn + 'm option) \<times> 'm app_state" where
  "load_model env model_path st =
     (let st1 = st\<lparr>fs_reads := fs_reads st @ [model_path]\<rparr>
      in case joblib_load env model_path of
           Inr model \<Rightarrow> (Inr model, st1)
         | Inl e \<Rightarrow>
             if exn_class e = ''FileNotFoundError''
             then (Inr None, emit (StError (not_found_text model_path)) st1)
             else (Inl e, st1))"

text \<open>
  \<open>load_model\<close> under \<open>@st.cache_resource\<close> (line 17): a value returned for an argument
  is stored and returned again without running the body; a call that raises stores
  nothing. The decorator is given no \<open>ttl\<close> and no \<open>max_entries\<close>, and the script
  never clears the cache, so an entry stays for the life of the process. What Streamlit
  itself puts on the page when a call is answered from the cache is not part of the
  script and not modelled; no fact below depends on it.
\<close>

definition load_model_cached :: "'m env \<Rightarrow> string \<Rightarrow> 'm app_state \<Rightarrow> (exn + 'm option) \<times> 'm app_state" where
  "load_model_cached env model_path st =
     (case cache st model_path of
        Some model \<Rightarrow> (Inr model, st)
      | None \<Rightarrow>
          (case load_model env model_path st of
             (Inl e, st1) \<Rightarrow> (Inl e, st1)
           | (Inr model, st1) \<Rightarrow> (Inr model, st1\<lparr>cache := (cache st1)(model_path \<mapsto> model)\<rparr>)))"

section \<open>The sliders\<close>

text \<open>A numeric literal of the source: an \<open>int\<close> or a \<open>float\<close> literal, the latter by
  its decimal value.\<close>

datatype pynum = IntLit int | FloatLit rat

fun num_val :: "pynum \<Rightarrow> rat" where
  "num_val (IntLit i) = of_int i"
| "num_val (FloatLit q) = q"

record slider_args =
  min_value :: pynum
  max_value :: pynum
  default_value :: pynum
  step :: pynum

text \<open>Lines 38 to 44, 49 to 55 and 59 to 65.\<close>

definition iron_slider :: slider_args where
  "iron_slider = \<lparr>min_value = FloatLit (6205 / 100), max_value = FloatLit (6801 / 100),
     default_value = IntLit 65, step = FloatLit (1 / 10)\<rparr>"

definition air_slider :: slider_args where
  "air_slider = \<lparr>min_value = FloatLit (17584734 / 100000), max_value = FloatLit (37244264 / 100000),
     default_value = IntLit 200, step = FloatLit (1 / 10)\<rparr>"

definition amina_slider :: slider_args where
  "amina_slider = \<lparr>min_value = FloatLit (24170237 / 100000), max_value = FloatLit (739304 / 1000),
     default_value = IntLit 350, step = FloatLit (1 / 10)\<rparr>"

fun is_int_lit :: "pynum \<Rightarrow> bool" where
  "is_int_lit (IntLit i) = True"
| "is_int_lit (FloatLit q) = False"

text \<open>
  \<open>st.slider\<close> on numeric arguments. Streamlit wants \<open>min_value\<close>, \<open>max_value\<close> and
  \<open>step\<close> to be all \<open>int\<close> or all \<open>float\<close>, and \<open>value\<close> to be of that same type;
  otherwise it raises \<open>StreamlitAPIException\<close>. When the arguments are accepted the call
  returns what the widget holds.
\<close>

definition st_slider :: "slider_args \<Rightarrow> pyval \<Rightarrow> exn + pyval" where
  "st_slider args held =
     (let bounds = [min_value args, max_value args, step args];
          int_args = list_all is_int_lit bounds;
          float_args = list_all (\<lambda>a. \<not> is_int_lit a) bounds
      in if \<not> int_args \<and> \<not> float_args
         then Inl (Exn ''StreamlitAPIException'' ''Slider value arguments must be of matching types.'')
         else if (is_int_lit (default_value args) \<and> int_args)
               \<or> (\<not> is_int_lit (default_value args) \<and> float_args)
         then Inr held
         else Inl (Exn ''StreamlitAPIException'' ''Both value and arguments must be of the same type.''))"

section \<open>The prediction logic\<close>

text \<open>What the widgets hold in one execution: the three slider positions and whether
  the button was pressed.\<close>

record inputs =
  iron :: pyval
  air :: pyval
  amina :: pyval
  button :: bool

text \<open>\<open>pd.DataFrame\<close> on a list of rows and column labels: a row whose length is not
  the number of labels raises \<open>ValueError\<close>.\<close>

definition pd_DataFrame :: "pyval list list \<Rightarrow> string list \<Rightarrow> exn + dataframe" where
  "pd_DataFrame rows labels =
     (if list_all (\<lambda>r. length r = length labels) rows
      then Inr \<lparr>columns = labels, data_rows = rows\<rparr>
      else Inl (Exn ''ValueError'' ''Shape of passed values does not match the columns''))"

text \<open>\<open>except Exception as e\<close> of lines 105 and 106: an instance of \<open>Exception\<close> is
  shown as an error, any other exception passes.\<close>

definition on_exception :: "exn \<Rightarrow> 'm app_state \<Rightarrow> (exn + unit) \<times> 'm app_state" where
  "on_exception e st =
     (if is_Exception e then (Inr (), emit (StError (predict_error_text e)) st) else (Inl e, st))"

text \<open>The \<open>try\<close> block of lines 99 to 106: the call, the subheader, the indexing and the
  formatting inside the success message, the note; an exception of any of them goes to
  the \<open>except\<close> clause.\<close>

definition try_predict :: "'m env \<Rightarrow> 'm \<Rightarrow> dataframe \<Rightarrow> 'm app_state \<Rightarrow> (exn + unit) \<times> 'm app_state" where
  "try_predict env model df_input st =
     (let st1 = st\<lparr>predict_calls := predict_calls st @ [(model, df_input)]\<rparr>
      in case predict env model df_input of
           Inl e \<Rightarrow> on_exception e st1
         | Inr prediction_value \<Rightarrow>
             (let st2 = emit (StSubheader subheader_text) st1
              in case getitem0 prediction_value of
                   Inl e \<Rightarrow> on_exception e st2
                 | Inr v \<Rightarrow>
                     (case format_2f v of
                        Inl e \<Rightarrow> on_exception e st2
                      | Inr shown \<Rightarrow>
                          (Inr (), emit (StInfo info_text) (emit (StSuccess (success_text shown)) st2)))))"

text \<open>Lines 88 to 108, given the value of \<open>model\<close>, the values returned by the sliders
  and the state of the button. The frame is built before the \<open>try\<close> block.\<close>

definition prediction_logic :: "'m env \<Rightarrow> inputs \<Rightarrow> 'm option \<Rightarrow> 'm app_state \<Rightarrow> (exn + unit) \<times> 'm app_state" where
  "prediction_logic env inp model st =
     (case model of
        Some m \<Rightarrow>
          if button inp
          then (case pd_DataFrame [[iron inp, air inp, amina inp]] feature_columns of
                  Inl e \<Rightarrow> (Inl e, st)
                | Inr df_input \<Rightarrow> try_predict env m df_input st)
          else (Inr (), st)
      | None \<Rightarrow> (Inr (), emit (StWarning warning_text) st))"

text \<open>One execution of the script: line 28, the three sliders of lines 38 to 65, then
  the prediction logic. No \<open>try\<close> surrounds line 28 or the sliders. \<open>Inl e\<close> is an
  exception that leaves the script.\<close>

definition script :: "'m env \<Rightarrow> inputs \<Rightarrow> 'm app_state \<Rightarrow> (exn + unit) \<times> 'm app_state" where
  "script env inp st =
     (case load_model_cached env ''modelo.joblib'' st of
        (Inl e, st1) \<Rightarrow> (Inl e, st1)
      | (Inr model, st1) \<Rightarrow>
          (case st_slider iron_slider (iron inp) of
             Inl e \<Rightarrow> (Inl e, st1)
           | Inr iron_v \<Rightarrow>
               (case st_slider air_slider (air inp) of
                  Inl e \<Rightarrow> (Inl e, st1)
                | Inr air_v \<Rightarrow>
                    (case st_slider amina_slider (amina inp) of
                       Inl e \<Rightarrow> (Inl e, st1)
                     | Inr amina_v \<Rightarrow>
                         prediction_logic env
                           \<lparr>iron = iron_v, air = air_v, amina = amina_v, button = button inp\<rparr>
                           model st1))))"

text \<open>The class of the exception that leaves a call, if one does.\<close>

fun raised_class :: "exn + 'a \<Rightarrow> string option" where
  "raised_class (Inl e) = Some (exn_class e)"
| "raised_class (Inr v) = None"

section \<open>Concrete environments\<close>

text \<open>
  Environments and widget values at which the facts below are evaluated: an artifact at
  \<open>modelo.joblib\<close> whose model returns 2.5 for any input, no artifact at all, an
  artifact that cannot be unpickled, and models whose \<open>predict\<close> raises \<open>ValueError\<close>,
  raises \<open>SystemExit\<close>, returns an empty array, returns \<open>nan\<close>, or returns the first
  row of the frame it is given.
\<close>

definition stub_env :: "nat env" where
  "stub_env = \<lparr>joblib_load = (\<lambda>p. if p = ''modelo.joblib'' then Inr (Some 0)
                  else Inl (Exn ''FileNotFoundError'' ''No such file or directory'')),
     predict = (\<lambda>m df. Inr (NdArray [PyFloat (Finite (5 / 2))]))\<rparr>"

definition missing_env :: "nat env" where
  "missing_env = \<lparr>joblib_load = (\<lambda>p. Inl (Exn ''FileNotFoundError'' ''No such file or directory'')),
     predict = (\<lambda>m df. Inr (NdArray [PyFloat (Finite (5 / 2))]))\<rparr>"

definition corrupt_env :: "nat env" where
  "corrupt_env = \<lparr>joblib_load = (\<lambda>p. Inl (Exn ''UnpicklingError'' ''invalid load key'')),
     predict = (\<lambda>m df. Inr (NdArray [PyFloat (Finite (5 / 2))]))\<rparr>"

definition faulty_env :: "nat env" where
  "faulty_env = \<lparr>joblib_load = (\<lambda>p. Inr (Some 0)),
     predict = (\<lambda>m df. Inl (Exn ''ValueError'' ''feature_names mismatch''))\<rparr>"




definition echo_env :: "nat env" where
  "echo_env = \<lparr>joblib_load = (\<lambda>p. Inr (Some 0)),
     predict = (\<lambda>m df. if columns df = feature_columns then Inr (NdArray (concat (data_rows df)))
                else Inl (Exn ''ValueError'' ''feature_names mismatch''))\<rparr>"

definition sample_inputs :: inputs where
  "sample_inputs = \<lparr>iron = PyFloat (Finite 65), air = PyFloat (Finite 200),
     amina = PyFloat (Finite 350), button = True\<rparr>"

section \<open>Facts about loading\<close>

lemma load_model_cached_hit:
  "cache st p = Some v \<Longrightarrow> load_model_cached env p st = (Inr v, st)"
  by (simp add: load_model_cached_def)

lemma load_model_cached_returns:
  assumes "cache st p = None" and "joblib_load env p = Inr v"
  shows "load_model_cached env p st =
    (Inr v, st\<lparr>fs_reads := fs_reads st @ [p], cache := (cache st)(p \<mapsto> v)\<rparr>)"
  using assms by (simp add: load_model_cached_def load_model_def)

lemma load_model_cached_not_found:
  assumes "cache st p = None" and "joblib_load env p = Inl e"
    and "exn_class e = ''FileNotFoundError''"
  shows "load_model_cached env p st =
    (Inr None, st\<lparr>fs_reads := fs_reads st @ [p], ui := ui st @ [StError (not_found_text p)],
       cache := (cache st)(p \<mapsto> None)\<rparr>)"
  using assms by (simp add: load_model_cached_def load_model_def emit_def)

lemma load_model_cached_raises:
  assumes "cache st p = None" and "joblib_load env p = Inl e"
    and "exn_class e \<noteq> ''FileNotFoundError''"
  shows "load_model_cached env p st = (Inl e, st\<lparr>fs_reads := fs_reads st @ [p]\<rparr>)"
  using assms by (simp add: load_model_cached_def load_model_def)

lemma load_model_cached_cases:
  obtains (hit) v where "cache st p = Some v"
        and "load_model_cached env p st = (Inr v, st)"
    | (returned) v where "cache st p = None" and "joblib_load env p = Inr v"
        and "load_model_cached env p st =
          (Inr v, st\<lparr>fs_reads := fs_reads st @ [p], cache := (cache st)(p \<mapsto> v)\<rparr>)"
    | (not_found) e where "cache st p = None" and "joblib_load env p = Inl e"
        and "exn_class e = ''FileNotFoundError''"
        and "load_model_cached env p st =
          (Inr None, st\<lparr>fs_reads := fs_reads st @ [p], ui := ui st @ [StError (not_found_text p)],
             cache := (cache st)(p \<mapsto> None)\<rparr>)"
    | (raised) e where "cache st p = None" and "joblib_load env p = Inl e"
        and "exn_class e \<noteq> ''FileNotFoundError''"
        and "load_model_cached env p st = (Inl e, st\<lparr>fs_reads := fs_reads st @ [p]\<rparr>)"
proof (cases "cache st p")
  case (Some v)
  then show ?thesis using hit load_model_cached_hit by metis
next
  case None
  show ?thesis
  proof (cases "joblib_load env p")
    case (Inr v)
    with None show ?thesis using returned load_model_cached_returns by metis
  next
    case (Inl e)
    show ?thesis
    proof (cases "exn_class e = ''FileNotFoundError''")
      case True
      with None Inl show ?thesis using not_found load_model_cached_not_found by metis
    next
      case False
      with None Inl show ?thesis using raised load_model_cached_raises by metis
    qed
  qed
qed

lemma load_model_cached_predict_calls:
  "predict_calls (snd (load_model_cached env p st)) = predict_calls st"
  by (cases rule: load_model_cached_cases [of st p env]) simp_all

lemma load_model_cached_Some_ui:
  "fst (load_model_cached env p st) = Inr (Some m) \<Longrightarrow> ui (snd (load_model_cached env p st)) = ui st"
  by (cases rule: load_model_cached_cases [of st p env]) simp_all


section \<open>Facts about the format\<close>


















section \<open>Facts about the prediction logic and the script\<close>

lemma pd_DataFrame_row:
  "pd_DataFrame [[a, b, c]] feature_columns = Inr \<lparr>columns = feature_columns, data_rows = [[a, b, c]]\<rparr>"
  by (simp add: pd_DataFrame_def feature_columns_def)

lemma prediction_logic_loaded:
  "button inp \<Longrightarrow> prediction_logic env inp (Some m) st =
     try_predict env m \<lparr>columns = feature_columns, data_rows = [[iron inp, air inp, amina inp]]\<rparr> st"
  by (simp add: prediction_logic_def pd_DataFrame_row)

lemma prediction_logic_idle:
  "\<not> button inp \<Longrightarrow> prediction_logic env inp (Some m) st = (Inr (), st)"
  by (simp add: prediction_logic_def)

lemma prediction_logic_no_model:
  "prediction_logic env inp None st = (Inr (), emit (StWarning warning_text) st)"
  by (simp add: prediction_logic_def)


lemma try_predict_index_fails:
  "predict env m df = Inr out \<Longrightarrow> getitem0 out = Inl e \<Longrightarrow>
   try_predict env m df st =
     on_exception e (emit (StSubheader subheader_text) (st\<lparr>predict_calls := predict_calls st @ [(m, df)]\<rparr>))"
  by (simp add: try_predict_def)








lemma slider_rejects_iron: "st_slider iron_slider held =
    Inl (Exn ''StreamlitAPIException'' ''Both value and arguments must be of the same type.'')"
  by (simp add: st_slider_def iron_slider_def)

lemma slider_rejects_air: "st_slider air_slider held =
    Inl (Exn ''StreamlitAPIException'' ''Both value and arguments must be of the same type.'')"
  by (simp add: st_slider_def air_slider_def)

lemma slider_rejects_amina: "st_slider amina_slider held =
    Inl (Exn ''StreamlitAPIException'' ''Both value and arguments must be of the same type.'')"
  by (simp add: st_slider_def amina_slider_def)

lemma script_load_raises:
  assumes "fst (load_model_cached env ''modelo.joblib'' st) = Inl e"
  shows "script env inp st = (Inl e, snd (load_model_cached env ''modelo.joblib'' st))"
  using assms
  by (cases "load_model_cached env ''modelo.joblib'' st") (simp add: script_def)

lemma script_stops_at_slider:
  assumes "fst (load_model_cached env ''modelo.joblib'' st) = Inr model"
  shows "script env inp st =
    (Inl (Exn ''StreamlitAPIException'' ''Both value and arguments must be of the same type.''),
     snd (load_model_cached env ''modelo.joblib'' st))"
  using assms
  by (cases "load_model_cached env ''modelo.joblib'' st") (simp add: script_def slider_rejects_iron)

lemma script_ignores_predict: "script (env\<lparr>predict := f\<rparr>) inp st = script env inp st"
proof -
  have "load_model (env\<lparr>predict := f\<rparr>) p st = load_model env p st" for p
    by (simp add: load_model_def)
  then have l: "load_model_cached (env\<lparr>predict := f\<rparr>) p st = load_model_cached env p st" for p
    unfolding load_model_cached_def by (rule arg_cong)
  show ?thesis
    by (cases "load_model_cached env ''modelo.joblib'' st")
       (simp add: script_def l slider_rejects_iron split: sum.splits)
qed

section \<open>Facts about the concrete environments\<close>

lemma stub_env_loads:
  "fst (load_model_cached stub_env ''modelo.joblib'' initial_state) = Inr (Some 0)"
  by (simp add: load_model_cached_def load_model_def stub_env_def initial_state_def)

lemma faulty_env_loads:
  "fst (load_model_cached faulty_env ''modelo.joblib'' initial_state) = Inr (Some 0)"
  by (simp add: load_model_cached_def load_model_def faulty_env_def initial_state_def)


lemma missing_env_fails:
  "fst (load_model_cached missing_env ''modelo.joblib'' initial_state) = Inr None"
  by (simp add: load_model_cached_def load_model_def missing_env_def initial_state_def)


lemma sample_frame:
  "\<lparr>columns = feature_columns,
     data_rows = [[iron sample_inputs, air sample_inputs, amina sample_inputs]]\<rparr>
   = \<lparr>columns = feature_columns,
     data_rows = [[PyFloat (Finite 65), PyFloat (Finite 200), PyFloat (Finite 350)]]\<rparr>"
  by (simp add: sample_inputs_def)

lemma load_raised_state:
  assumes "fst (load_model_cached env p st) = Inl e"
  shows "ui (snd (load_model_cached env p st)) = ui st"
  using assms by (cases rule: load_model_cached_cases [of st p env]) simp_all

lemma script_predict_calls: "predict_calls (snd (script env inp st)) = predict_calls st"
proof (cases "fst (load_model_cached env ''modelo.joblib'' st)")
  case (Inl e)
  then show ?thesis by (simp add: script_load_raises load_model_cached_predict_calls)
next
  case (Inr model)
  then show ?thesis by (simp add: script_stops_at_slider load_model_cached_predict_calls)
qed

lemma corrupt_env_raises:
  "fst (load_model_cached corrupt_env ''modelo.joblib'' initial_state)
     = Inl (Exn ''UnpicklingError'' ''invalid load key'')"
  by (simp add: load_model_cached_def load_model_def corrupt_env_def initial_state_def)

section \<open>What lines 88 to 108 do with slider values\<close>

text \<open>
  With a model whose \<open>predict\<close> returns the first row of the frame it is given, and
  only under the three labels of the script, the prediction logic shows the first slider
  value: the row of slider values is what \<open>predict\<close> receives.
\<close>

lemma prediction_block_echo:
  "ui (snd (prediction_logic echo_env sample_inputs (Some 0) initial_state)) =
     [StSubheader subheader_text, StSuccess ''**Concentrado Predicho:** `65.00%`'', StInfo info_text]"
  by (simp add: prediction_logic_def pd_DataFrame_def feature_columns_def sample_inputs_def
      echo_env_def try_predict_def emit_def initial_state_def success_text_def
      fixed2_def round_half_even_def digit_char_def str_nat.simps)

text \<open>
  When \<open>predict\<close> returns an empty list or array, the \<open>IndexError\<close> of the indexing is
  caught by the \<open>except\<close> clause: the subheader is followed by the prediction error and
  the block completes.
\<close>

lemma prediction_block_empty_output:
  assumes "button inp"
    and "predict env m \<lparr>columns = feature_columns, data_rows = [[iron inp, air inp, amina inp]]\<rparr> = Inr out"
    and "items out = []"
  shows "fst (prediction_logic env inp (Some m) st) = Inr ()
       \<and> (\<exists>cause. ui (snd (prediction_logic env inp (Some m) st)) =
             ui st @ [StSubheader subheader_text, StError (predict_error_text (Exn ''IndexError'' cause))])"
proof -
  obtain cause where "getitem0 out = Inl (Exn ''IndexError'' cause)"
    using assms(3) by (cases out) auto
  then show ?thesis
    using assms(1,2)
    by (auto simp: prediction_logic_loaded try_predict_index_fails on_exception_def
        is_Exception_def emit_def)
qed

section \<open>The claims\<close>


text \<open>
  Claim C2 says that a failed deserialization is returned as an error value. The body
  of \<open>load_model\<close> handles \<open>FileNotFoundError\<close> only: on an artifact that cannot be
  unpickled the exception leaves \<open>load_model\<close> and the script, before any widget or
  message of the page.
\<close>

theorem corrupt_load_counterexample:
  "fst (load_model_cached corrupt_env ''modelo.joblib'' initial_state)
     = Inl (Exn ''UnpicklingError'' ''invalid load key'')
   \<and> script corrupt_env sample_inputs initial_state
     = (Inl (Exn ''UnpicklingError'' ''invalid load key''),
        initial_state\<lparr>fs_reads := [''modelo.joblib'']\<rparr>)"
  by (simp add: script_def load_model_cached_def load_model_def corrupt_env_def initial_state_def)

text \<open>
  Claim C2, amended. When \<open>joblib.load\<close> raises \<open>FileNotFoundError\<close>, \<open>load_model\<close>
  shows an error naming the path and returns \<open>None\<close> instead of raising. When
  \<open>joblib.load\<close> raises any other exception, that exception leaves \<open>load_model\<close> and
  the script, and nothing is shown.
\<close>

theorem load_failure_outcomes:
  assumes "cache st ''modelo.joblib'' = None" and "joblib_load env ''modelo.joblib'' = Inl e"
  shows "(exn_class e = ''FileNotFoundError'' \<longrightarrow>
           fst (load_model_cached env ''modelo.joblib'' st) = Inr None
           \<and> ui (snd (load_model_cached env ''modelo.joblib'' st)) =
               ui st @ [StError (not_found_text ''modelo.joblib'')])
       \<and> (exn_class e \<noteq> ''FileNotFoundError'' \<longrightarrow>
           fst (load_model_cached env ''modelo.joblib'' st) = Inl e
           \<and> fst (script env inp st) = Inl e
           \<and> ui (snd (script env inp st)) = ui st)"
proof (cases "exn_class e = ''FileNotFoundError''")
  case True
  note ld = load_model_cached_not_found [OF assms True]
  show ?thesis
    using True by (simp add: ld)
next
  case False
  note ld = load_model_cached_raises [OF assms False]
  from ld have r: "fst (load_model_cached env ''modelo.joblib'' st) = Inl e" by simp
  show ?thesis
    using False r by (simp add: script_load_raises [OF r] ld)
qed

theorem load_failure_outcomes_witness:
  "cache (initial_state :: nat app_state) ''modelo.joblib'' = None
   \<and> joblib_load missing_env ''modelo.joblib'' = Inl (Exn ''FileNotFoundError'' ''No such file or directory'')
   \<and> fst (load_model_cached missing_env ''modelo.joblib'' initial_state) = Inr None
   \<and> ui (snd (load_model_cached missing_env ''modelo.joblib'' initial_state)) =
       [StError (not_found_text ''modelo.joblib'')]"
proof -
  have c: "cache (initial_state :: nat app_state) ''modelo.joblib'' = None"
    by (simp add: initial_state_def)
  have j: "joblib_load missing_env ''modelo.joblib'' = Inl (Exn ''FileNotFoundError'' ''No such file or directory'')"
    by (simp add: missing_env_def)
  have u: "ui (initial_state :: nat app_state) = []"
    by (simp add: initial_state_def)
  show ?thesis
    using load_failure_outcomes [OF c j, of sample_inputs] c j u by simp
qed




text \<open>
  Claim C4 says that a failed load always ends in the warning, without a crash. When
  \<open>load_model\<close> fails by raising, as on an artifact that cannot be unpickled, the
  exception leaves the script at line 28 and no warning is shown.
\<close>

theorem raising_load_no_warning_counterexample:
  "fst (script corrupt_env sample_inputs initial_state) = Inl (Exn ''UnpicklingError'' ''invalid load key'')
   \<and> ui (snd (script corrupt_env sample_inputs initial_state)) = []"
  by (simp add: script_def load_model_cached_def load_model_def corrupt_env_def initial_state_def)

text \<open>
  Claim C4, amended. Lines 88 to 108, given the handle \<open>None\<close>, make no call of
  \<open>predict\<close>, whatever \<open>predict\<close> would do, and show the warning without raising.
  Whenever \<open>load_model\<close> has not given a model, by returning \<open>None\<close> or by raising, the
  script makes no call of \<open>predict\<close> and its outcome does not depend on what
  \<open>predict\<close> would do. When \<open>load_model\<close> raises, the exception leaves the script and
  nothing more is shown.
\<close>

theorem no_prediction_without_model:
  "fst (prediction_logic env inp None st) = Inr ()
   \<and> ui (snd (prediction_logic env inp None st)) = ui st @ [StWarning warning_text]
   \<and> predict_calls (snd (prediction_logic env inp None st)) = predict_calls st
   \<and> prediction_logic (env\<lparr>predict := f\<rparr>) inp None st = prediction_logic env inp None st
   \<and> ((\<forall>m. fst (load_model_cached env ''modelo.joblib'' st) \<noteq> Inr (Some m)) \<longrightarrow>
         predict_calls (snd (script env inp st)) = predict_calls st
         \<and> script (env\<lparr>predict := f\<rparr>) inp st = script env inp st)
   \<and> (fst (load_model_cached env ''modelo.joblib'' st) = Inl e \<longrightarrow>
         fst (script env inp st) = Inl e \<and> ui (snd (script env inp st)) = ui st)"
proof -
  have raised: "fst (script env inp st) = Inl e \<and> ui (snd (script env inp st)) = ui st"
    if r: "fst (load_model_cached env ''modelo.joblib'' st) = Inl e"
    by (simp add: script_load_raises [OF r] load_raised_state [OF r])
  show ?thesis
    using raised
    by (simp add: prediction_logic_no_model emit_def script_predict_calls script_ignores_predict)
qed

theorem no_prediction_without_model_witness:
  "(\<forall>m. fst (load_model_cached corrupt_env ''modelo.joblib'' initial_state) \<noteq> Inr (Some m))
   \<and> fst (load_model_cached corrupt_env ''modelo.joblib'' initial_state)
       = Inl (Exn ''UnpicklingError'' ''invalid load key'')
   \<and> predict_calls (snd (script corrupt_env sample_inputs initial_state)) = []
   \<and> fst (script corrupt_env sample_inputs initial_state) = Inl (Exn ''UnpicklingError'' ''invalid load key'')
   \<and> ui (snd (prediction_logic corrupt_env sample_inputs None initial_state)) = [StWarning warning_text]"
proof -
  have u: "ui (initial_state :: nat app_state) = []"
    and c: "predict_calls (initial_state :: nat app_state) = []"
    by (simp_all add: initial_state_def)
  note t = no_prediction_without_model [of corrupt_env sample_inputs initial_state
      "predict corrupt_env" "Exn ''UnpicklingError'' ''invalid load key''"]
  show ?thesis
    using t corrupt_env_raises u c by simp
qed







text \<open>
  Claim C7. Loading a path that does not exist returns \<open>None\<close> without an exception,
  and a later call with another path whose artifact is valid still returns the model.
\<close>

theorem failed_load_leaves_other_paths:
  assumes "cache st p1 = None" and "joblib_load env p1 = Inl e"
    and "exn_class e = ''FileNotFoundError''"
    and "p2 \<noteq> p1" and "cache st p2 = None" and "joblib_load env' p2 = Inr (Some m)"
  shows "fst (load_model_cached env p1 st) = Inr None
       \<and> fst (load_model_cached env' p2 (snd (load_model_cached env p1 st))) = Inr (Some m)"
proof -
  note ld = load_model_cached_not_found [OF assms(1-3)]
  have free: "cache (snd (load_model_cached env p1 st)) p2 = None"
    using assms(4,5) by (simp add: ld)
  show ?thesis
    using load_model_cached_returns [OF free assms(6)] by (simp add: ld)
qed

theorem failed_load_leaves_other_paths_witness:
  "cache (initial_state :: nat app_state) ''missing.joblib'' = None
   \<and> joblib_load stub_env ''missing.joblib'' = Inl (Exn ''FileNotFoundError'' ''No such file or directory'')
   \<and> ''modelo.joblib'' \<noteq> ''missing.joblib''
   \<and> cache (initial_state :: nat app_state) ''modelo.joblib'' = None
   \<and> joblib_load stub_env ''modelo.joblib'' = Inr (Some 0)
   \<and> fst (load_model_cached stub_env ''missing.joblib'' initial_state) = Inr None
   \<and> fst (load_model_cached stub_env ''modelo.joblib''
        (snd (load_model_cached stub_env ''missing.joblib'' initial_state))) = Inr (Some 0)"
proof -
  have c1: "cache (initial_state :: nat app_state) ''missing.joblib'' = None"
    by (simp add: initial_state_def)
  have j1: "joblib_load stub_env ''missing.joblib'' = Inl (Exn ''FileNotFoundError'' ''No such file or directory'')"
    by (simp add: stub_env_def)
  have k: "exn_class (Exn ''FileNotFoundError'' ''No such file or directory'') = ''FileNotFoundError''"
    by simp
  have d: "''modelo.joblib'' \<noteq> ''missing.joblib''" by simp
  have c2: "cache (initial_state :: nat app_state) ''modelo.joblib'' = None"
    by (simp add: initial_state_def)
  have j2: "joblib_load stub_env ''modelo.joblib'' = Inr (Some 0)"
    by (simp add: stub_env_def)
  show ?thesis
    using failed_load_leaves_other_paths [OF c1 j1 k d c2 j2] c1 j1 d c2 j2 by simp
qed

text \<open>
  Claim C8 says that the three controls are configured with the bounds, defaults and
  step of the table. The arguments of lines 38 to 65 are those of the table, but the
  defaults 65, 200 and 350 are \<open>int\<close> literals between \<open>float\<close> bounds and steps:
  \<open>st.slider\<close> rejects each of the three calls with \<open>StreamlitAPIException\<close>, so the
  script stops at line 38 and no control is created.
\<close>

theorem sliders_rejected:
  "num_val (min_value iron_slider) = 62.05 \<and> num_val (max_value iron_slider) = 68.01
   \<and> default_value iron_slider = IntLit 65 \<and> num_val (step iron_slider) = 0.1
   \<and> num_val (min_value air_slider) = 175.84734 \<and> num_val (max_value air_slider) = 372.44264
   \<and> default_value air_slider = IntLit 200 \<and> num_val (step air_slider) = 0.1
   \<and> num_val (min_value amina_slider) = 241.70237 \<and> num_val (max_value amina_slider) = 739.304
   \<and> default_value amina_slider = IntLit 350 \<and> num_val (step amina_slider) = 0.1
   \<and> raised_class (st_slider iron_slider held) = Some ''StreamlitAPIException''
   \<and> raised_class (st_slider air_slider held) = Some ''StreamlitAPIException''
   \<and> raised_class (st_slider amina_slider held) = Some ''StreamlitAPIException''
   \<and> raised_class (fst (script stub_env sample_inputs initial_state)) = Some ''StreamlitAPIException''"
proof -
  have table: "num_val (min_value iron_slider) = 62.05 \<and> num_val (max_value iron_slider) = 68.01
   \<and> default_value iron_slider = IntLit 65 \<and> num_val (step iron_slider) = 0.1
   \<and> num_val (min_value air_slider) = 175.84734 \<and> num_val (max_value air_slider) = 372.44264
   \<and> default_value air_slider = IntLit 200 \<and> num_val (step air_slider) = 0.1
   \<and> num_val (min_value amina_slider) = 241.70237 \<and> num_val (max_value amina_slider) = 739.304
   \<and> default_value amina_slider = IntLit 350 \<and> num_val (step amina_slider) = 0.1"
    by (simp add: iron_slider_def air_slider_def amina_slider_def)
  have raised: "raised_class (st_slider iron_slider held) = Some ''StreamlitAPIException''
   \<and> raised_class (st_slider air_slider held) = Some ''StreamlitAPIException''
   \<and> raised_class (st_slider amina_slider held) = Some ''StreamlitAPIException''"
    by (simp add: slider_rejects_iron slider_rejects_air slider_rejects_amina)
  have run: "raised_class (fst (script stub_env sample_inputs initial_state)) = Some ''StreamlitAPIException''"
    by (simp add: script_stops_at_slider [OF stub_env_loads])
  from table raised run show ?thesis
    by (intro conjI) (elim conjE; assumption)+
qed

text \<open>
  Claim C9. When a load fails with \<open>FileNotFoundError\<close>, the \<open>None\<close> it returns is
  cached under the path: every later call with that path returns \<open>None\<close> without
  reading the file system and leaves the entry in place, also when the file exists by
  then.
\<close>

theorem failed_load_is_cached:
  assumes "cache st p = None" and "joblib_load env p = Inl e"
    and "exn_class e = ''FileNotFoundError''"
  shows "cache (snd (load_model_cached env p st)) p = Some None
       \<and> fst (load_model_cached env' p (snd (load_model_cached env p st))) = Inr None
       \<and> cache (snd (load_model_cached env' p (snd (load_model_cached env p st)))) p = Some None
       \<and> fs_reads (snd (load_model_cached env' p (snd (load_model_cached env p st))))
           = fs_reads (snd (load_model_cached env p st))
       \<and> fs_reads (snd (load_model_cached env p st)) = fs_reads st @ [p]"
proof -
  note ld = load_model_cached_not_found [OF assms]
  have stored: "cache (snd (load_model_cached env p st)) p = Some None"
    by (simp add: ld)
  show ?thesis
    by (simp add: load_model_cached_hit [OF stored] stored) (simp add: ld)
qed

theorem failed_load_is_cached_witness:
  "cache (initial_state :: nat app_state) ''modelo.joblib'' = None
   \<and> joblib_load missing_env ''modelo.joblib'' = Inl (Exn ''FileNotFoundError'' ''No such file or directory'')
   \<and> joblib_load stub_env ''modelo.joblib'' = Inr (Some 0)
   \<and> fst (load_model_cached stub_env ''modelo.joblib''
        (snd (load_model_cached missing_env ''modelo.joblib'' initial_state))) = Inr None
   \<and> fs_reads (snd (load_model_cached stub_env ''modelo.joblib''
        (snd (load_model_cached missing_env ''modelo.joblib'' initial_state)))) = [''modelo.joblib'']"
proof -
  have c: "cache (initial_state :: nat app_state) ''modelo.joblib'' = None"
    by (simp add: initial_state_def)
  have j: "joblib_load missing_env ''modelo.joblib'' = Inl (Exn ''FileNotFoundError'' ''No such file or directory'')"
    by (simp add: missing_env_def)
  have k: "exn_class (Exn ''FileNotFoundError'' ''No such file or directory'') = ''FileNotFoundError''"
    by simp
  have j2: "joblib_load stub_env ''modelo.joblib'' = Inr (Some 0)"
    by (simp add: stub_env_def)
  have r: "fs_reads (initial_state :: nat app_state) = []"
    by (simp add: initial_state_def)
  note cached = failed_load_is_cached [OF c j k, of stub_env]
  show ?thesis
    using cached c j j2 r by simp
qed


end
